theory Spec2Isabelle
  imports Complex_Main "HOL-Library.AList"
begin

section \<open>JavaScript values\<close>

text \<open>
  The data layer of \<^verbatim>\<open>src/lib/data/index.ts\<close> handles rows typed \<^verbatim>\<open>any\<close>: what
  comes back from the remote client and from \<^verbatim>\<open>JSON.parse\<close>. Its behaviour depends
  on JavaScript's truthiness, on \<^verbatim>\<open>||\<close>, on \<^verbatim>\<open>!== undefined\<close> and on property reads
  that yield \<^verbatim>\<open>undefined\<close>, so values are modelled untyped.

  A number is NaN, an infinity or a finite value; the finite doubles are embedded in the
  reals (both zeros are the real 0: the program only tests them for truthiness).
  An object is the list of its own properties in insertion order; a property read
  takes the first entry for a key.
\<close>

datatype jsnum = NaN | PosInf | NegInf | Fin real

datatype jsval =
    JUndefined
  | JNull
  | JBool bool
  | JNum jsnum
  | JStr string
  | JArr "jsval list"
  | JObj "(string \<times> jsval) list"

text \<open>
  A thrown value: an instance of \<^verbatim>\<open>Error\<close> with its message, or any other value
  (the remote client's error object may be either).
\<close>

datatype exn = JsError string | Thrown jsval

text \<open>
  The \<^verbatim>\<open>TypeError\<close> of a property read on \<^verbatim>\<open>null\<close> or \<^verbatim>\<open>undefined\<close>, or of a
  call of something that is not a function. Its message differs between engines.
\<close>

definition TypeError :: exn where
  "TypeError = JsError ''TypeError''"

fun truthy :: "jsval \<Rightarrow> bool" where
  "truthy JUndefined = False"
| "truthy JNull = False"
| "truthy (JBool b) = b"
| "truthy (JNum n) = (n \<noteq> NaN \<and> n \<noteq> Fin 0)"
| "truthy (JStr s) = (s \<noteq> [])"
| "truthy (JArr xs) = True"
| "truthy (JObj kvs) = True"

text \<open>\<^verbatim>\<open>a || b\<close> on values without effects.\<close>

definition or_else :: "jsval \<Rightarrow> jsval \<Rightarrow> jsval" where
  "or_else a b = (if truthy a then a else b)"

text \<open>
  \<^verbatim>\<open>v.k\<close> for the property names this file reads, none of which is an index,
  \<^verbatim>\<open>length\<close> or a prototype member: an own property of an object, \<^verbatim>\<open>undefined\<close> on
  any other value. The read throws on \<^verbatim>\<open>null\<close> and \<^verbatim>\<open>undefined\<close>; \<open>nullish\<close>
  is that test, made by every caller before its first read.
\<close>

fun get :: "jsval \<Rightarrow> string \<Rightarrow> jsval" where
  "get (JObj kvs) k = (case map_of kvs k of Some v \<Rightarrow> v | None \<Rightarrow> JUndefined)"
| "get v k = JUndefined"

fun nullish :: "jsval \<Rightarrow> bool" where
  "nullish JUndefined = True"
| "nullish JNull = True"
| "nullish v = False"

fun isArray :: "jsval \<Rightarrow> bool" where
  "isArray (JArr xs) = True"
| "isArray v = False"

text \<open>
  Running a callback that may throw over a list, left to right; the first throw ends
  the loop.
\<close>

fun map_throw :: "('a \<Rightarrow> exn + 'b) \<Rightarrow> 'a list \<Rightarrow> exn + 'b list" where
  "map_throw f [] = Inr []"
| "map_throw f (x # xs) =
     (case f x of
        Inl e \<Rightarrow> Inl e
      | Inr y \<Rightarrow> (case map_throw f xs of Inl e \<Rightarrow> Inl e | Inr ys \<Rightarrow> Inr (y # ys)))"

text \<open>\<^verbatim>\<open>data.map(f)\<close>: only an array has a \<^verbatim>\<open>map\<close> method.\<close>

fun array_map :: "(jsval \<Rightarrow> exn + jsval) \<Rightarrow> jsval \<Rightarrow> exn + jsval list" where
  "array_map f (JArr xs) = map_throw f xs"
| "array_map f v = Inl TypeError"

section \<open>What the module imports\<close>

text \<open>
  The built-ins, the remote client and the two static tables are not part of the file:
  they are parameters. \<open>'r\<close> is the state of the remote store.
  \<^item> \<open>StringToNumber\<close>, \<open>ObjectToNumber\<close>: \<^verbatim>\<open>Number(v)\<close> on a string and on an
    array or object (the latter goes through \<^verbatim>\<open>valueOf\<close>/\<^verbatim>\<open>toString\<close> and may throw);
  \<^item> \<open>JSON_parse\<close> (throws on malformed text), \<open>JSON_stringify\<close> with its indentation;
  \<^item> \<open>toLowerCase\<close>;
  \<^item> \<open>supabase\<close>: the answer \<^verbatim>\<open>{data, error}\<close> of the client to one request on the
    table \<^verbatim>\<open>experiences\<close>, and the store after it;
  \<^item> \<open>categories\<close> (\<^verbatim>\<open>./categories\<close>) and \<open>static_experiences\<close>
    (\<^verbatim>\<open>./experiences\<close>, the built-in default list).
\<close>

datatype category = Category (cat_id: string) (cat_name: string)

datatype row_filter = NoFilter | Eq string jsval | Ilike string string

datatype request =
    Select string row_filter
  | SelectMaybeSingle string row_filter
  | InsertSelectSingle jsval string
  | Insert jsval
  | Update jsval row_filter

type_synonym response = "jsval \<times> exn option"

record 'r host =
  StringToNumber :: "string \<Rightarrow> jsnum"
  ObjectToNumber :: "jsval \<Rightarrow> exn + jsnum"
  JSON_parse :: "string \<Rightarrow> exn + jsval"
  JSON_stringify :: "jsval \<Rightarrow> nat \<Rightarrow> string"
  toLowerCase :: "string \<Rightarrow> string"
  supabase :: "request \<Rightarrow> 'r \<Rightarrow> response \<times> 'r"
  categories :: "category list"
  static_experiences :: jsval

text \<open>\<^verbatim>\<open>Number(v)\<close>.\<close>

fun Number :: "'r host \<Rightarrow> jsval \<Rightarrow> exn + jsnum" where
  "Number h JUndefined = Inr NaN"
| "Number h JNull = Inr (Fin 0)"
| "Number h (JBool b) = Inr (Fin (if b then 1 else 0))"
| "Number h (JNum n) = Inr n"
| "Number h (JStr s) = Inr (StringToNumber h s)"
| "Number h (JArr xs) = ObjectToNumber h (JArr xs)"
| "Number h (JObj kvs) = ObjectToNumber h (JObj kvs)"

section \<open>Record Mapper\<close>

text \<open>\<^verbatim>\<open>c ? Number(c) : undefined\<close>, the expression of lines 31 and 32.\<close>

definition coordinate :: "'r host \<Rightarrow> jsval \<Rightarrow> exn + jsval" where
  "coordinate h c =
     (if truthy c
      then (case Number h c of Inl e \<Rightarrow> Inl e | Inr n \<Rightarrow> Inr (JNum n))
      else Inr JUndefined)"

definition mapDbExperienceToModel :: "'r host \<Rightarrow> jsval \<Rightarrow> exn + jsval" where
  "mapDbExperienceToModel h item =
     (if nullish item then Inl TypeError
      else case coordinate h (get item ''latitude'') of
        Inl e \<Rightarrow> Inl e
      | Inr lat \<Rightarrow>
          (case coordinate h (get item ''longitude'') of
             Inl e \<Rightarrow> Inl e
           | Inr lng \<Rightarrow> Inr (JObj
               [(''id'', get item ''id''),
                (''title'', get item ''title''),
                (''description'', get item ''description''),
                (''imageUrl'', get item ''image_url''),
                (''price'', get item ''price''),
                (''location'', get item ''location''),
                (''latitude'', lat),
                (''longitude'', lng),
                (''duration'', get item ''duration''),
                (''participants'', get item ''participants''),
                (''date'', get item ''date''),
                (''category'', get item ''category''),
                (''nicheCategory'', get item ''niche_category''),
                (''exp_type'', or_else (get item ''exp_type'') (JArr [])),
                (''trending'', or_else (get item ''trending'') (JBool False)),
                (''featured'', or_else (get item ''featured'') (JBool False)),
                (''romantic'', or_else (get item ''romantic'') (JBool False)),
                (''adventurous'', or_else (get item ''adventurous'') (JBool False)),
                (''group'', or_else (get item ''group_activity'') (JBool False))])))"

text \<open>
  The row that \<^verbatim>\<open>addExperience\<close> inserts (lines 96 to 113), built from an Experience
  without id.
\<close>

definition addExperience_row :: "jsval \<Rightarrow> exn + jsval" where
  "addExperience_row experience =
     (if nullish experience then Inl TypeError
      else Inr (JObj
        [(''title'', get experience ''title''),
         (''description'', get experience ''description''),
         (''image_url'', get experience ''imageUrl''),
         (''price'', get experience ''price''),
         (''location'', get experience ''location''),
         (''duration'', get experience ''duration''),
         (''participants'', get experience ''participants''),
         (''date'', get experience ''date''),
         (''category'', get experience ''category''),
         (''niche_category'', get experience ''nicheCategory''),
         (''exp_type'', get experience ''exp_type''),
         (''trending'', or_else (get experience ''trending'') (JBool False)),
         (''featured'', or_else (get experience ''featured'') (JBool False)),
         (''romantic'', or_else (get experience ''romantic'') (JBool False)),
         (''adventurous'', or_else (get experience ''adventurous'') (JBool False)),
         (''group_activity'', or_else (get experience ''group'') (JBool False))]))"

text \<open>
  The callback of \<^verbatim>\<open>importedExperiences.map\<close> in \<^verbatim>\<open>importExperiences\<close>
  (lines 203 to 220); \<open>x\<close> is the source's \<^verbatim>\<open>exp\<close>.
\<close>

definition importExperiences_row :: "jsval \<Rightarrow> exn + jsval" where
  "importExperiences_row x =
     (if nullish x then Inl TypeError
      else Inr (JObj
        [(''title'', get x ''title''),
         (''description'', get x ''description''),
         (''image_url'', get x ''imageUrl''),
         (''price'', get x ''price''),
         (''location'', get x ''location''),
         (''duration'', get x ''duration''),
         (''participants'', get x ''participants''),
         (''date'', get x ''date''),
         (''category'', get x ''category''),
         (''niche_category'', get x ''nicheCategory''),
         (''exp_type'', get x ''exp_type''),
         (''trending'', or_else (get x ''trending'') (JBool False)),
         (''featured'', or_else (get x ''featured'') (JBool False)),
         (''romantic'', or_else (get x ''romantic'') (JBool False)),
         (''adventurous'', or_else (get x ''adventurous'') (JBool False)),
         (''group_activity'', or_else (get x ''group'') (JBool False))]))"

section \<open>The world the module acts on\<close>

text \<open>
  The state of the Stateful Manager (\<open>experiences\<close>, \<open>isLoading\<close>, \<open>error\<close>: the
  three \<^verbatim>\<open>useState\<close> cells), the item of \<^verbatim>\<open>localStorage\<close> under the key
  \<^verbatim>\<open>experiences\<close>, the remote store, and the trace of what the module did to the
  outside: requests to the remote client, reads and writes of the storage key, toasts,
  console errors, and a state updater that threw when React ran it.
\<close>

datatype event =
    Remote request
  | GetItem
  | SetItem string
  | ToastSuccess string
  | ToastError string
  | ConsoleError string exn
  | RenderError exn

record 'r world =
  experiences :: jsval
  isLoading :: bool
  error :: "string option"
  localStorage :: "string option"
  remote :: 'r
  trace :: "event list"

record result =
  success :: bool
  message :: string

definition emit :: "event \<Rightarrow> 'r world \<Rightarrow> 'r world" where
  "emit ev w = w\<lparr>trace := trace w @ [ev]\<rparr>"

text \<open>\<^verbatim>\<open>await supabase.from('experiences')...\<close>: one request, its answer, the store after.\<close>

definition from_experiences :: "'r host \<Rightarrow> request \<Rightarrow> 'r world \<Rightarrow> response \<times> 'r world" where
  "from_experiences h rq w =
     (case supabase h rq (remote w) of
        (resp, r') \<Rightarrow> (resp, emit (Remote rq) (w\<lparr>remote := r'\<rparr>)))"

definition getItem :: "'r world \<Rightarrow> string option \<times> 'r world" where
  "getItem w = (localStorage w, emit GetItem w)"

definition setItem :: "string \<Rightarrow> 'r world \<Rightarrow> 'r world" where
  "setItem s w = emit (SetItem s) (w\<lparr>localStorage := Some s\<rparr>)"

text \<open>
  \<^verbatim>\<open>setExperiences(prev => f(prev))\<close>. React runs the updater outside the caller's
  \<^verbatim>\<open>try\<close>; when it throws, the list keeps its value and the throw is recorded.
\<close>

definition setExperiences_with :: "(jsval \<Rightarrow> exn + jsval) \<Rightarrow> 'r world \<Rightarrow> 'r world" where
  "setExperiences_with f w =
     (case f (experiences w) of
        Inr v \<Rightarrow> w\<lparr>experiences := v\<rparr>
      | Inl e \<Rightarrow> emit (RenderError e) w)"

definition columns :: string where
  "columns = ''id, title, description, image_url, price, location, latitude, longitude, duration, participants, date, category, niche_category, exp_type, trending, featured, romantic, adventurous, group_activity''"

section \<open>Local Fallback Store\<close>

definition getSavedExperiences :: "'r host \<Rightarrow> 'r world \<Rightarrow> jsval \<times> 'r world" where
  "getSavedExperiences h w =
     (case getItem w of
        (saved, w1) \<Rightarrow>
          (case saved of
             None \<Rightarrow> (static_experiences h, w1)
           | Some s \<Rightarrow>
               if s = [] then (static_experiences h, w1)
               else (case JSON_parse h s of
                       Inr v \<Rightarrow> (v, w1)
                     | Inl e \<Rightarrow>
                         (static_experiences h,
                          emit (ConsoleError ''Error retrieving saved experiences:'' e) w1))))"

section \<open>Stateful Manager\<close>

text \<open>
  \<^verbatim>\<open>saved.length > 0\<close> on whatever \<^verbatim>\<open>getSavedExperiences\<close> returned: a string or an
  array has its length, an object its own property \<^verbatim>\<open>length\<close> (compared as a number),
  a boolean or number has none, and \<^verbatim>\<open>null\<close> throws.
\<close>

fun length_gt0 :: "'r host \<Rightarrow> jsval \<Rightarrow> exn + bool" where
  "length_gt0 h JUndefined = Inl TypeError"
| "length_gt0 h JNull = Inl TypeError"
| "length_gt0 h (JBool b) = Inr False"
| "length_gt0 h (JNum n) = Inr False"
| "length_gt0 h (JStr s) = Inr (s \<noteq> [])"
| "length_gt0 h (JArr xs) = Inr (xs \<noteq> [])"
| "length_gt0 h (JObj kvs) =
     (case Number h (get (JObj kvs) ''length'') of
        Inl e \<Rightarrow> Inl e
      | Inr n \<Rightarrow> Inr (case n of Fin r \<Rightarrow> 0 < r | PosInf \<Rightarrow> True | _ \<Rightarrow> False))"

text \<open>The \<^verbatim>\<open>try\<close> block of \<^verbatim>\<open>fetchExperiences\<close> (lines 58 to 72).\<close>

definition fetchExperiences_try :: "'r host \<Rightarrow> 'r world \<Rightarrow> (exn + unit) \<times> 'r world" where
  "fetchExperiences_try h w =
     (case from_experiences h (Select columns NoFilter) w of
        ((data, err), w1) \<Rightarrow>
          (case err of
             Some e \<Rightarrow> (Inl e, w1)
           | None \<Rightarrow>
               (case array_map (mapDbExperienceToModel h) data of
                  Inl e \<Rightarrow> (Inl e, w1)
                | Inr mappedExperiences \<Rightarrow>
                    (Inr (),
                     setItem (JSON_stringify h (JArr mappedExperiences) 0)
                       (w1\<lparr>experiences := JArr mappedExperiences\<rparr>)))))"

text \<open>The \<^verbatim>\<open>catch\<close> block (lines 73 to 81); it can throw itself, at \<^verbatim>\<open>saved.length\<close>.\<close>

definition fetchExperiences_catch ::
  "'r host \<Rightarrow> exn \<Rightarrow> 'r world \<Rightarrow> (exn + unit) \<times> 'r world" where
  "fetchExperiences_catch h err w =
     (case getSavedExperiences h
             ((emit (ConsoleError ''Error fetching experiences:'' err) w)
                \<lparr>error := Some ''Failed to load experiences''\<rparr>) of
        (saved, w1) \<Rightarrow>
          (case length_gt0 h saved of
             Inl e \<Rightarrow> (Inl e, w1)
           | Inr b \<Rightarrow> (Inr (), if b then w1\<lparr>experiences := saved\<rparr> else w1)))"

text \<open>The whole effect, with the \<^verbatim>\<open>finally\<close> that clears the loading flag on every path.\<close>

definition fetchExperiences :: "'r host \<Rightarrow> 'r world \<Rightarrow> (exn + unit) \<times> 'r world" where
  "fetchExperiences h w =
     (case fetchExperiences_try h (w\<lparr>isLoading := True, error := None\<rparr>) of
        (Inr u, w1) \<Rightarrow> (Inr u, w1\<lparr>isLoading := False\<rparr>)
      | (Inl err, w1) \<Rightarrow>
          (case fetchExperiences_catch h err w1 of
             (r, w2) \<Rightarrow> (r, w2\<lparr>isLoading := False\<rparr>)))"

text \<open>
  Mounting the hook: the initial values of the three state cells, then the effect.
\<close>

definition useExperiencesManager ::
  "'r host \<Rightarrow> string option \<Rightarrow> 'r \<Rightarrow> (exn + unit) \<times> 'r world" where
  "useExperiencesManager h stored r =
     fetchExperiences h
       \<lparr>experiences = JArr [], isLoading = True, error = None,
        localStorage = stored, remote = r, trace = []\<rparr>"

text \<open>\<^verbatim>\<open>[...prev, newExperience]\<close>: an array or a string can be spread into an array.\<close>

fun append_to :: "jsval \<Rightarrow> jsval \<Rightarrow> exn + jsval" where
  "append_to newExperience (JArr xs) = Inr (JArr (xs @ [newExperience]))"
| "append_to newExperience (JStr s) = Inr (JArr (map (\<lambda>c. JStr [c]) s @ [newExperience]))"
| "append_to newExperience prev = Inl TypeError"

definition addExperience_try :: "'r host \<Rightarrow> jsval \<Rightarrow> 'r world \<Rightarrow> (exn + jsval) \<times> 'r world" where
  "addExperience_try h experience w =
     (case addExperience_row experience of
        Inl e \<Rightarrow> (Inl e, w)
      | Inr row \<Rightarrow>
          (case from_experiences h (InsertSelectSingle row ''*'') w of
             ((data, err), w1) \<Rightarrow>
               (case err of
                  Some e \<Rightarrow> (Inl e, w1)
                | None \<Rightarrow>
                    (case mapDbExperienceToModel h data of
                       Inl e \<Rightarrow> (Inl e, w1)
                     | Inr newExperience \<Rightarrow>
                         (Inr newExperience,
                          setExperiences_with (append_to newExperience) w1)))))"

definition addExperience :: "'r host \<Rightarrow> jsval \<Rightarrow> 'r world \<Rightarrow> (exn + jsval) \<times> 'r world" where
  "addExperience h experience w =
     (case addExperience_try h experience w of
        (Inr v, w1) \<Rightarrow> (Inr v, w1)
      | (Inl err, w1) \<Rightarrow>
          (Inl err,
           emit (ToastError ''Failed to add experience'')
             (emit (ConsoleError ''Error adding experience:'' err) w1)))"

subsection \<open>Update\<close>




text \<open>
  Object spread. The own enumerable properties of a value: those of an object, the
  indices of an array or string, none of anything else. \<open>spread\<close> copies them onto
  the properties collected so far, in order, a later value replacing an earlier one
  in place. The list that results holds the keys in the order in which they were
  copied; JavaScript lists the keys that are array indices first, in ascending order,
  so for such keys the position in the list is not the position in the object. What
  is stated about a merged object is stated by key, through \<open>get\<close>, never by
  position.
\<close>

fun index_key :: "nat \<Rightarrow> string" where
  "index_key n =
     (if n < 10 then [char_of (48 + n)]
      else index_key (n div 10) @ [char_of (48 + n mod 10)])"

fun own_props :: "jsval \<Rightarrow> (string \<times> jsval) list" where
  "own_props (JObj kvs) = AList.clearjunk kvs"
| "own_props (JArr xs) = zip (map index_key [0..<length xs]) xs"
| "own_props (JStr s) = zip (map index_key [0..<length s]) (map (\<lambda>c. JStr [c]) s)"
| "own_props v = []"

definition spread :: "(string \<times> jsval) list \<Rightarrow> jsval \<Rightarrow> (string \<times> jsval) list" where
  "spread acc v = fold (\<lambda>(k, x). AList.update k x) (own_props v) acc"


definition map_experiences :: "(jsval \<Rightarrow> exn + jsval) \<Rightarrow> jsval \<Rightarrow> exn + jsval" where
  "map_experiences f prev =
     (case array_map f prev of Inl e \<Rightarrow> Inl e | Inr xs \<Rightarrow> Inr (JArr xs))"



subsection \<open>Import, export, reset\<close>

definition importExperiences_try ::
  "'r host \<Rightarrow> string \<Rightarrow> 'r world \<Rightarrow> (exn + result) \<times> 'r world" where
  "importExperiences_try h jsonString w =
     (case JSON_parse h jsonString of
        Inl e \<Rightarrow> (Inl e, w)
      | Inr importedExperiences \<Rightarrow>
          if \<not> isArray importedExperiences
          then (Inr \<lparr>success = False, message = ''Invalid format: expected an array''\<rparr>, w)
          else
            (case array_map importExperiences_row importedExperiences of
               Inl e \<Rightarrow> (Inl e, w)
             | Inr experiencesToInsert \<Rightarrow>
                 (case from_experiences h (Insert (JArr experiencesToInsert)) w of
                    ((ignored, insertError), w1) \<Rightarrow>
                      (case insertError of
                         Some e \<Rightarrow> (Inl e, w1)
                       | None \<Rightarrow>
                           (case from_experiences h (Select columns NoFilter) w1 of
                              ((data, fetchError), w2) \<Rightarrow>
                                (case fetchError of
                                   Some e \<Rightarrow> (Inl e, w2)
                                 | None \<Rightarrow>
                                     (case array_map (mapDbExperienceToModel h) data of
                                        Inl e \<Rightarrow> (Inl e, w2)
                                      | Inr mappedExperiences \<Rightarrow>
                                          (Inr \<lparr>success = True,
                                                message = ''Experiences imported successfully''\<rparr>,
                                           w2\<lparr>experiences := JArr mappedExperiences\<rparr>))))))))"

text \<open>\<^verbatim>\<open>error instanceof Error ? error.message : 'Unknown error'\<close>.\<close>

fun error_message :: "exn \<Rightarrow> string" where
  "error_message (JsError m) = m"
| "error_message (Thrown v) = ''Unknown error''"

definition importExperiences ::
  "'r host \<Rightarrow> string \<Rightarrow> 'r world \<Rightarrow> (exn + result) \<times> 'r world" where
  "importExperiences h jsonString w =
     (case importExperiences_try h jsonString w of
        (Inr r, w1) \<Rightarrow> (Inr r, w1)
      | (Inl err, w1) \<Rightarrow>
          (Inr \<lparr>success = False, message = ''Error importing: '' @ error_message err\<rparr>,
           emit (ConsoleError ''Error importing experiences:'' err) w1))"

definition exportExperiences_try :: "'r host \<Rightarrow> 'r world \<Rightarrow> (exn + string) \<times> 'r world" where
  "exportExperiences_try h w =
     (case from_experiences h (Select columns NoFilter) w of
        ((data, err), w1) \<Rightarrow>
          (case err of
             Some e \<Rightarrow> (Inl e, w1)
           | None \<Rightarrow>
               (case array_map (mapDbExperienceToModel h) data of
                  Inl e \<Rightarrow> (Inl e, w1)
                | Inr exportData \<Rightarrow> (Inr (JSON_stringify h (JArr exportData) 2), w1))))"

definition exportExperiences :: "'r host \<Rightarrow> 'r world \<Rightarrow> (exn + string) \<times> 'r world" where
  "exportExperiences h w =
     (case exportExperiences_try h w of
        (Inr s, w1) \<Rightarrow> (Inr s, w1)
      | (Inl err, w1) \<Rightarrow>
          (Inl err,
           emit (ToastError ''Failed to export experiences'')
             (emit (ConsoleError ''Error exporting experiences:'' err) w1)))"

text \<open>
  The \<^verbatim>\<open>try\<close> block of \<^verbatim>\<open>resetExperiences\<close> is a toast and a \<^verbatim>\<open>return\<close>; nothing
  in it throws, so its \<^verbatim>\<open>catch\<close> has no path to it.
\<close>

definition resetExperiences :: "'r world \<Rightarrow> (exn + result) \<times> 'r world" where
  "resetExperiences w =
     (Inr \<lparr>success = True, message = ''Experiences have been reset''\<rparr>,
      emit (ToastSuccess ''Experiences have been reset'') w)"

section \<open>Remote Accessor: the standalone functions\<close>

definition getAllExperiences :: "'r host \<Rightarrow> 'r world \<Rightarrow> jsval \<times> 'r world" where
  "getAllExperiences h w =
     (case from_experiences h (Select columns NoFilter) w of
        ((data, err), w1) \<Rightarrow>
          (case (case err of
                   Some e \<Rightarrow> Inl e
                 | None \<Rightarrow> array_map (mapDbExperienceToModel h) data) of
             Inr xs \<Rightarrow> (JArr xs, w1)
           | Inl e \<Rightarrow>
               getSavedExperiences h (emit (ConsoleError ''Error loading experiences:'' e) w1)))"

text \<open>
  \<^verbatim>\<open>localExperiences.find(exp => exp.id === id)\<close>: the first element whose \<^verbatim>\<open>id\<close> is
  the string \<open>i\<close>, \<^verbatim>\<open>undefined\<close> when there is none; reading \<^verbatim>\<open>id\<close> of a
  \<^verbatim>\<open>null\<close> element throws, and only an array has \<^verbatim>\<open>find\<close>.
\<close>

fun find_id :: "string \<Rightarrow> jsval list \<Rightarrow> exn + jsval" where
  "find_id i [] = Inr JUndefined"
| "find_id i (x # xs) =
     (if nullish x then Inl TypeError
      else if get x ''id'' = JStr i then Inr x
      else find_id i xs)"

fun array_find_id :: "string \<Rightarrow> jsval \<Rightarrow> exn + jsval" where
  "array_find_id i (JArr xs) = find_id i xs"
| "array_find_id i v = Inl TypeError"

definition getExperienceById ::
  "'r host \<Rightarrow> string \<Rightarrow> 'r world \<Rightarrow> (exn + jsval) \<times> 'r world" where
  "getExperienceById h i w =
     (case from_experiences h (SelectMaybeSingle columns (Eq ''id'' (JStr i))) w of
        ((data, err), w1) \<Rightarrow>
          (case (case err of
                   Some e \<Rightarrow> Inl e
                 | None \<Rightarrow>
                     if \<not> truthy data then Inr JNull else mapDbExperienceToModel h data) of
             Inr v \<Rightarrow> (Inr v, w1)
           | Inl e \<Rightarrow>
               (case getSavedExperiences h
                       (emit (ConsoleError ''Error loading experience by ID:'' e) w1) of
                  (localExperiences, w2) \<Rightarrow>
                    (case array_find_id i localExperiences of
                       Inl e' \<Rightarrow> (Inl e', w2)
                     | Inr found \<Rightarrow> (Inr (or_else found JNull), w2)))))"

text \<open>
  \<^verbatim>\<open>exp.category?.toLowerCase() === categoryObj.name.toLowerCase()\<close>: the read of
  \<^verbatim>\<open>category\<close> throws on a \<^verbatim>\<open>null\<close> element; a missing or \<^verbatim>\<open>null\<close> category
  compares unequal; a category that is not a string has no \<^verbatim>\<open>toLowerCase\<close> to call.
\<close>

definition category_matches :: "'r host \<Rightarrow> category \<Rightarrow> jsval \<Rightarrow> exn + bool" where
  "category_matches h categoryObj x =
     (if nullish x then Inl TypeError
      else case get x ''category'' of
        JUndefined \<Rightarrow> Inr False
      | JNull \<Rightarrow> Inr False
      | JStr s \<Rightarrow> Inr (toLowerCase h s = toLowerCase h (cat_name categoryObj))
      | _ \<Rightarrow> Inl TypeError)"

fun filter_throw :: "('a \<Rightarrow> exn + bool) \<Rightarrow> 'a list \<Rightarrow> exn + 'a list" where
  "filter_throw p [] = Inr []"
| "filter_throw p (x # xs) =
     (case p x of
        Inl e \<Rightarrow> Inl e
      | Inr b \<Rightarrow>
          (case filter_throw p xs of
             Inl e \<Rightarrow> Inl e
           | Inr ys \<Rightarrow> Inr (if b then x # ys else ys)))"

fun array_filter :: "(jsval \<Rightarrow> exn + bool) \<Rightarrow> jsval \<Rightarrow> exn + jsval" where
  "array_filter p (JArr xs) =
     (case filter_throw p xs of Inl e \<Rightarrow> Inl e | Inr ys \<Rightarrow> Inr (JArr ys))"
| "array_filter p v = Inl TypeError"

text \<open>\<^verbatim>\<open>data.length === 0\<close>, for a truthy \<^verbatim>\<open>data\<close>.\<close>

fun length_is_0 :: "jsval \<Rightarrow> bool" where
  "length_is_0 (JArr xs) = (xs = [])"
| "length_is_0 (JStr s) = (s = [])"
| "length_is_0 (JObj kvs) = (get (JObj kvs) ''length'' = JNum (Fin 0))"
| "length_is_0 v = False"

definition getExperiencesByCategory_try ::
  "'r host \<Rightarrow> string \<Rightarrow> 'r world \<Rightarrow> (exn + jsval) \<times> 'r world" where
  "getExperiencesByCategory_try h categoryId w =
     (case find (\<lambda>cat. cat_id cat = categoryId) (categories h) of
        None \<Rightarrow> (Inr (JArr []), w)
      | Some categoryObj \<Rightarrow>
          (case from_experiences h
                  (Select columns (Ilike ''category'' (toLowerCase h (cat_name categoryObj)))) w of
             ((data, err), w1) \<Rightarrow>
               (case err of
                  Some e \<Rightarrow> (Inl e, w1)
                | None \<Rightarrow>
                    if \<not> truthy data \<or> length_is_0 data
                    then (case getSavedExperiences h w1 of
                            (localExperiences, w2) \<Rightarrow>
                              (array_filter (category_matches h categoryObj) localExperiences, w2))
                    else (map_experiences (mapDbExperienceToModel h) data, w1))))"

text \<open>
  The \<^verbatim>\<open>catch\<close> block (lines 408 to 414) looks the category up again; its callback is
  \<^verbatim>\<open>categoryObj && ...\<close>, which reads nothing of the element when there is no category.
\<close>

definition getExperiencesByCategory_catch ::
  "'r host \<Rightarrow> string \<Rightarrow> exn \<Rightarrow> 'r world \<Rightarrow> (exn + jsval) \<times> 'r world" where
  "getExperiencesByCategory_catch h categoryId err w =
     (case getSavedExperiences h
             (emit (ConsoleError ''Error loading experiences by category:'' err) w) of
        (localExperiences, w1) \<Rightarrow>
          (case find (\<lambda>cat. cat_id cat = categoryId) (categories h) of
             None \<Rightarrow> (array_filter (\<lambda>x. Inr False) localExperiences, w1)
           | Some categoryObj \<Rightarrow>
               (array_filter (category_matches h categoryObj) localExperiences, w1)))"

definition getExperiencesByCategory ::
  "'r host \<Rightarrow> string \<Rightarrow> 'r world \<Rightarrow> (exn + jsval) \<times> 'r world" where
  "getExperiencesByCategory h categoryId w =
     (case getExperiencesByCategory_try h categoryId w of
        (Inr v, w1) \<Rightarrow> (Inr v, w1)
      | (Inl err, w1) \<Rightarrow> getExperiencesByCategory_catch h categoryId err w1)"

section \<open>A sample environment\<close>

text \<open>
  One concrete choice of what the module imports, on which the functions can be
  evaluated. The remote store is a list of rows that answers reads, applies updates
  and rejects inserts; \<open>offline\<close> is a store that cannot be reached. The built-ins
  are tabulated on the few strings the examples use (there they agree with JavaScript)
  and are arbitrary elsewhere.
\<close>

fun row_matches :: "row_filter \<Rightarrow> jsval \<Rightarrow> bool" where
  "row_matches NoFilter r = True"
| "row_matches (Eq k v) r = (get r k = v)"
| "row_matches (Ilike k p) r = False"

fun sample_store :: "request \<Rightarrow> jsval list \<Rightarrow> response \<times> jsval list" where
  "sample_store (Select cols (Ilike k p)) rows =
     ((JNull, Some (JsError ''operator not available'')), rows)"
| "sample_store (Select cols f) rows = ((JArr (filter (row_matches f) rows), None), rows)"
| "sample_store (SelectMaybeSingle cols f) rows =
     (case filter (row_matches f) rows of
        [] \<Rightarrow> ((JNull, None), rows)
      | [r] \<Rightarrow> ((r, None), rows)
      | _ \<Rightarrow> ((JNull, Some (JsError ''multiple rows returned'')), rows))"
| "sample_store (Update payload f) rows =
     ((JNull, None),
      map (\<lambda>r. if row_matches f r then JObj (spread (spread [] r) payload) else r) rows)"
| "sample_store rq rows = ((JNull, Some (JsError ''permission denied'')), rows)"

definition offline :: "request \<Rightarrow> 'r \<Rightarrow> response \<times> 'r" where
  "offline rq r = ((JNull, Some (JsError ''Failed to fetch'')), r)"

definition sample_host :: "jsval list host" where
  "sample_host =
     \<lparr>StringToNumber = (\<lambda>s. if s = ''12.5'' then Fin 12.5 else NaN),
      ObjectToNumber = (\<lambda>v. Inr NaN),
      JSON_parse =
        (\<lambda>s. if s = ''[{},{},{}]'' then Inr (JArr [JObj [], JObj [], JObj []])
             else if s = ''{}'' then Inr (JObj [])
             else Inl (JsError ''Unexpected token'')),
      JSON_stringify = (\<lambda>v n. if v = JArr [] then ''[]'' else ''[...]''),
      toLowerCase = (\<lambda>s. if s = ''Adventure'' then ''adventure'' else s),
      supabase = sample_store,
      categories = [Category ''adventure'' ''Adventure''],
      static_experiences = JArr []\<rparr>"

definition sample_row :: jsval where
  "sample_row =
     JObj [(''id'', JStr ''e1''),
           (''title'', JStr ''Hike''),
           (''description'', JStr ''A walk''),
           (''image_url'', JStr ''hike.png''),
           (''price'', JNum (Fin 10)),
           (''location'', JStr ''Quito''),
           (''latitude'', JStr ''12.5''),
           (''longitude'', JNum (Fin 77)),
           (''duration'', JStr ''2h''),
           (''participants'', JStr ''4''),
           (''date'', JStr ''2024-01-01''),
           (''category'', JStr ''Adventure''),
           (''niche_category'', JNull),
           (''exp_type'', JArr [JStr ''outdoor'']),
           (''trending'', JBool True),
           (''featured'', JBool False),
           (''romantic'', JBool False),
           (''adventurous'', JBool True),
           (''group_activity'', JBool False)]"

definition sample_world :: "jsval list world" where
  "sample_world =
     \<lparr>experiences = JArr [], isLoading = True, error = None,
      localStorage = Some ''[{},{},{}]'', remote = [sample_row], trace = []\<rparr>"

section \<open>Vocabulary of the properties\<close>

text \<open>The value of a property in what a mapping returned, when it returned.\<close>

definition field :: "exn + jsval \<Rightarrow> string \<Rightarrow> jsval option" where
  "field r k = (case r of Inr m \<Rightarrow> Some (get m k) | Inl e \<Rightarrow> None)"

text \<open>A row mapped to the model and back to the shape that is inserted.\<close>

definition roundtrip_add :: "'r host \<Rightarrow> jsval \<Rightarrow> exn + jsval" where
  "roundtrip_add h item =
     (case mapDbExperienceToModel h item of
        Inl e \<Rightarrow> Inl e
      | Inr m \<Rightarrow> addExperience_row m)"

text \<open>
  The columns an insert carries over unchanged, the flag columns, and the flags with
  their name in the model and their column.
\<close>

definition kept_columns :: "string list" where
  "kept_columns =
     [''title'', ''description'', ''image_url'', ''price'', ''location'',
      ''duration'', ''participants'', ''date'', ''category'', ''niche_category'']"

definition flag_columns :: "string list" where
  "flag_columns = [''trending'', ''featured'', ''romantic'', ''adventurous'', ''group_activity'']"

definition flag_fields :: "(string \<times> string) list" where
  "flag_fields =
     [(''trending'', ''trending''),
      (''featured'', ''featured''),
      (''romantic'', ''romantic''),
      (''adventurous'', ''adventurous''),
      (''group'', ''group_activity'')]"

fun is_boolean :: "jsval \<Rightarrow> bool" where
  "is_boolean (JBool b) = True"
| "is_boolean v = False"

text \<open>The requests to the remote store in a trace, in order.\<close>

fun remote_requests :: "event list \<Rightarrow> request list" where
  "remote_requests [] = []"
| "remote_requests (Remote rq # evs) = rq # remote_requests evs"
| "remote_requests (ev # evs) = remote_requests evs"

text \<open>The reads of the storage key in a trace.\<close>

fun storage_reads :: "event list \<Rightarrow> nat" where
  "storage_reads [] = 0"
| "storage_reads (GetItem # evs) = Suc (storage_reads evs)"
| "storage_reads (ev # evs) = storage_reads evs"

text \<open>The text parses, and to an array.\<close>

definition parses_to_array :: "'r host \<Rightarrow> string \<Rightarrow> bool" where
  "parses_to_array h s = (case JSON_parse h s of Inr v \<Rightarrow> isArray v | Inl e \<Rightarrow> False)"

text \<open>A list of records none of which has the identifier \<open>i\<close>.\<close>

fun lacks_id :: "string \<Rightarrow> jsval \<Rightarrow> bool" where
  "lacks_id i (JArr xs) = list_all (\<lambda>x. \<not> nullish x \<and> get x ''id'' \<noteq> JStr i) xs"
| "lacks_id i v = False"

section \<open>Facts about the Record Mapper\<close>

lemma or_else_cases:
  "or_else v (JBool False) \<noteq> JUndefined"
  "\<not> truthy v \<Longrightarrow> or_else v d = d"
  "truthy v \<Longrightarrow> or_else v d = v"
  "is_boolean v \<or> nullish v \<Longrightarrow> is_boolean (or_else v (JBool False))"
  "is_boolean v \<Longrightarrow> or_else v (JBool False) = v"
  "isArray v \<Longrightarrow> or_else v d = v"
  "or_else (or_else v (JBool False)) (JBool False) = or_else v (JBool False)"
proof -
  show "or_else v (JBool False) \<noteq> JUndefined"
    by (cases v) (simp_all add: or_else_def)
  show "\<not> truthy v \<Longrightarrow> or_else v d = d"
    by (simp add: or_else_def)
  show "truthy v \<Longrightarrow> or_else v d = v"
    by (simp add: or_else_def)
  show "is_boolean v \<or> nullish v \<Longrightarrow> is_boolean (or_else v (JBool False))"
    by (cases v) (simp_all add: or_else_def)
  show "is_boolean v \<Longrightarrow> or_else v (JBool False) = v"
    by (cases v) (simp_all add: or_else_def)
  show "isArray v \<Longrightarrow> or_else v d = v"
    by (cases v) (simp_all add: or_else_def)
  show "or_else (or_else v (JBool False)) (JBool False) = or_else v (JBool False)"
    by (cases v) (simp_all add: or_else_def)
qed

text \<open>The object a successful mapping returned.\<close>

lemma mapDb_Inr:
  assumes "mapDbExperienceToModel h item = Inr m"
  obtains lat lng where "\<not> nullish item"
    "coordinate h (get item ''latitude'') = Inr lat"
    "coordinate h (get item ''longitude'') = Inr lng"
    "m = JObj
           [(''id'', get item ''id''),
            (''title'', get item ''title''),
            (''description'', get item ''description''),
            (''imageUrl'', get item ''image_url''),
            (''price'', get item ''price''),
            (''location'', get item ''location''),
            (''latitude'', lat),
            (''longitude'', lng),
            (''duration'', get item ''duration''),
            (''participants'', get item ''participants''),
            (''date'', get item ''date''),
            (''category'', get item ''category''),
            (''nicheCategory'', get item ''niche_category''),
            (''exp_type'', or_else (get item ''exp_type'') (JArr [])),
            (''trending'', or_else (get item ''trending'') (JBool False)),
            (''featured'', or_else (get item ''featured'') (JBool False)),
            (''romantic'', or_else (get item ''romantic'') (JBool False)),
            (''adventurous'', or_else (get item ''adventurous'') (JBool False)),
            (''group'', or_else (get item ''group_activity'') (JBool False))]"
  using assms unfolding mapDbExperienceToModel_def
  by (auto split: if_splits sum.splits)

text \<open>The same, property by property.\<close>

lemma mapDb_fields:
  assumes "mapDbExperienceToModel h item = Inr m"
  shows "\<not> nullish item" and "\<not> nullish m"
    and "get m ''id'' = get item ''id''"
    and "get m ''title'' = get item ''title''"
    and "get m ''description'' = get item ''description''"
    and "get m ''imageUrl'' = get item ''image_url''"
    and "get m ''price'' = get item ''price''"
    and "get m ''location'' = get item ''location''"
    and "coordinate h (get item ''latitude'') = Inr (get m ''latitude'')"
    and "coordinate h (get item ''longitude'') = Inr (get m ''longitude'')"
    and "get m ''duration'' = get item ''duration''"
    and "get m ''participants'' = get item ''participants''"
    and "get m ''date'' = get item ''date''"
    and "get m ''category'' = get item ''category''"
    and "get m ''nicheCategory'' = get item ''niche_category''"
    and "get m ''exp_type'' = or_else (get item ''exp_type'') (JArr [])"
    and "get m ''trending'' = or_else (get item ''trending'') (JBool False)"
    and "get m ''featured'' = or_else (get item ''featured'') (JBool False)"
    and "get m ''romantic'' = or_else (get item ''romantic'') (JBool False)"
    and "get m ''adventurous'' = or_else (get item ''adventurous'') (JBool False)"
    and "get m ''group'' = or_else (get item ''group_activity'') (JBool False)"
proof -
  from assms obtain lat lng where
    "\<not> nullish item"
    "coordinate h (get item ''latitude'') = Inr lat"
    "coordinate h (get item ''longitude'') = Inr lng"
    "get m ''latitude'' = lat \<and> get m ''longitude'' = lng \<and> \<not> nullish m
     \<and> get m ''id'' = get item ''id''
     \<and> get m ''title'' = get item ''title''
     \<and> get m ''description'' = get item ''description''
     \<and> get m ''imageUrl'' = get item ''image_url''
     \<and> get m ''price'' = get item ''price''
     \<and> get m ''location'' = get item ''location''
     \<and> get m ''duration'' = get item ''duration''
     \<and> get m ''participants'' = get item ''participants''
     \<and> get m ''date'' = get item ''date''
     \<and> get m ''category'' = get item ''category''
     \<and> get m ''nicheCategory'' = get item ''niche_category''
     \<and> get m ''exp_type'' = or_else (get item ''exp_type'') (JArr [])
     \<and> get m ''trending'' = or_else (get item ''trending'') (JBool False)
     \<and> get m ''featured'' = or_else (get item ''featured'') (JBool False)
     \<and> get m ''romantic'' = or_else (get item ''romantic'') (JBool False)
     \<and> get m ''adventurous'' = or_else (get item ''adventurous'') (JBool False)
     \<and> get m ''group'' = or_else (get item ''group_activity'') (JBool False)"
    by (rule mapDb_Inr) simp
  then show "\<not> nullish item" and "\<not> nullish m"
    and "get m ''id'' = get item ''id''"
    and "get m ''title'' = get item ''title''"
    and "get m ''description'' = get item ''description''"
    and "get m ''imageUrl'' = get item ''image_url''"
    and "get m ''price'' = get item ''price''"
    and "get m ''location'' = get item ''location''"
    and "coordinate h (get item ''latitude'') = Inr (get m ''latitude'')"
    and "coordinate h (get item ''longitude'') = Inr (get m ''longitude'')"
    and "get m ''duration'' = get item ''duration''"
    and "get m ''participants'' = get item ''participants''"
    and "get m ''date'' = get item ''date''"
    and "get m ''category'' = get item ''category''"
    and "get m ''nicheCategory'' = get item ''niche_category''"
    and "get m ''exp_type'' = or_else (get item ''exp_type'') (JArr [])"
    and "get m ''trending'' = or_else (get item ''trending'') (JBool False)"
    and "get m ''featured'' = or_else (get item ''featured'') (JBool False)"
    and "get m ''romantic'' = or_else (get item ''romantic'') (JBool False)"
    and "get m ''adventurous'' = or_else (get item ''adventurous'') (JBool False)"
    and "get m ''group'' = or_else (get item ''group_activity'') (JBool False)"
    by simp_all
qed

lemma mapDb_flag:
  assumes "mapDbExperienceToModel h item = Inr m"
      and "(internal, external) \<in> set flag_fields"
  shows "get m internal = or_else (get item external) (JBool False)"
  using assms(2) mapDb_fields(17-21) [OF assms(1)]
  unfolding flag_fields_def by auto

section \<open>The claims\<close>

subsection \<open>C1: the round trip through the model\<close>

text \<open>
  The claim as written fails: the row built for an insert has no \<^verbatim>\<open>id\<close>,
  \<^verbatim>\<open>latitude\<close> or \<^verbatim>\<open>longitude\<close>. On the sample row, whose id is \<^verbatim>\<open>e1\<close>, the row
  that comes back has no id.
\<close>

theorem roundtrip_drops_id_counterexample:
  "get sample_row ''id'' = JStr ''e1''
   \<and> field (roundtrip_add sample_host sample_row) ''id'' = Some JUndefined"
  by (simp add: field_def roundtrip_add_def sample_row_def sample_host_def
        mapDbExperienceToModel_def coordinate_def or_else_def addExperience_row_def)

text \<open>
  C1, amended. For every external row that the mapper accepts, mapping it to the
  Experience model and then building the row to insert (\<^verbatim>\<open>addExperience\<close> and
  \<^verbatim>\<open>importExperiences\<close> build the same one) preserves title, description, image_url,
  price, location, duration, participants, date, category and niche_category. The row
  holds \<^verbatim>\<open>exp_type || []\<close> and, for each of the five flags, \<^verbatim>\<open>flag || false\<close>, so
  exp_type is preserved when it is an array and a flag when it is a boolean. The row
  has no id, latitude or longitude.
\<close>

theorem roundtrip_preserves_insert_columns:
  assumes "mapDbExperienceToModel h item = Inr m"
  shows "\<exists>row. addExperience_row m = Inr row \<and> importExperiences_row m = Inr row
      \<and> (\<forall>c \<in> set kept_columns. get row c = get item c)
      \<and> get row ''exp_type'' = or_else (get item ''exp_type'') (JArr [])
      \<and> (isArray (get item ''exp_type'') \<longrightarrow> get row ''exp_type'' = get item ''exp_type'')
      \<and> (\<forall>c \<in> set flag_columns.
            get row c = or_else (get item c) (JBool False)
            \<and> (is_boolean (get item c) \<longrightarrow> get row c = get item c))
      \<and> get row ''id'' = JUndefined
      \<and> get row ''latitude'' = JUndefined
      \<and> get row ''longitude'' = JUndefined"
  using mapDb_fields [OF assms]
  unfolding addExperience_row_def importExperiences_row_def kept_columns_def flag_columns_def
  by (simp add: or_else_cases)

theorem roundtrip_preserves_insert_columns_witness:
  "field (mapDbExperienceToModel sample_host sample_row) ''imageUrl'' = Some (JStr ''hike.png'')
   \<and> field (roundtrip_add sample_host sample_row) ''image_url'' = Some (JStr ''hike.png'')
   \<and> field (roundtrip_add sample_host sample_row) ''trending'' = Some (JBool True)
   \<and> field (roundtrip_add sample_host sample_row) ''latitude'' = Some JUndefined"
proof -
  obtain m where m: "mapDbExperienceToModel sample_host sample_row = Inr m"
    by (simp add: sample_row_def sample_host_def mapDbExperienceToModel_def coordinate_def)
  from roundtrip_preserves_insert_columns [OF m]
  obtain row where row: "addExperience_row m = Inr row"
    and kept: "\<forall>c \<in> set kept_columns. get row c = get sample_row c"
    and flags: "\<forall>c \<in> set flag_columns. get row c = or_else (get sample_row c) (JBool False)
            \<and> (is_boolean (get sample_row c) \<longrightarrow> get row c = get sample_row c)"
    and lat: "get row ''latitude'' = JUndefined"
    by blast
  have "get row ''image_url'' = get sample_row ''image_url''"
    using kept by (simp add: kept_columns_def)
  moreover have "get sample_row ''image_url'' = JStr ''hike.png''"
    by (simp add: sample_row_def)
  moreover have "get row ''trending'' = or_else (get sample_row ''trending'') (JBool False)"
    using flags by (simp add: flag_columns_def)
  moreover have "get sample_row ''trending'' = JBool True"
    by (simp add: sample_row_def)
  moreover have "get m ''imageUrl'' = get sample_row ''image_url''"
    by (rule mapDb_fields(6) [OF m])
  ultimately show ?thesis
    using lat by (simp add: field_def roundtrip_add_def m row or_else_def)
qed

subsection \<open>C3: coordinates\<close>

text \<open>
  C3. A coordinate that is present in the row is to be converted to a number. The
  mapper tests the field for truthiness, so a row on the equator and the prime
  meridian, whose latitude and longitude are the number 0, is mapped to an Experience
  without coordinates, although \<^verbatim>\<open>Number(0)\<close> is 0.
\<close>

theorem zero_coordinates_left_unset:
  "field (mapDbExperienceToModel h
            (JObj [(''id'', JStr ''e0''), (''latitude'', JNum (Fin 0)), (''longitude'', JNum (Fin 0))]))
         ''latitude'' = Some JUndefined
   \<and> field (mapDbExperienceToModel h
            (JObj [(''id'', JStr ''e0''), (''latitude'', JNum (Fin 0)), (''longitude'', JNum (Fin 0))]))
         ''longitude'' = Some JUndefined
   \<and> Number h (JNum (Fin 0)) = Inr (Fin 0)"
  by (simp add: field_def mapDbExperienceToModel_def coordinate_def)

subsection \<open>C4: the flags\<close>

text \<open>
  The claim as written fails on a flag that is truthy and not a boolean: \<^verbatim>\<open>||\<close>
  passes it through.
\<close>

theorem mapped_flag_not_boolean_counterexample:
  "field (mapDbExperienceToModel sample_host (JObj [(''trending'', JStr ''yes'')])) ''trending''
     = Some (JStr ''yes'')
   \<and> \<not> is_boolean (JStr ''yes'')"
  by (simp add: field_def mapDbExperienceToModel_def coordinate_def or_else_def)

text \<open>
  C4, amended. For every input row that the mapper accepts, each of the five flags
  (trending, featured, romantic, adventurous, group) of the Experience is never absent
  or undefined, is \<^verbatim>\<open>false\<close> whenever the field is absent from the input (or holds
  any falsy value), and is a boolean whenever the input field is a boolean, \<^verbatim>\<open>null\<close>
  or absent; a truthy input value is passed through unchanged.
\<close>

theorem mapped_flags_default_false:
  assumes "mapDbExperienceToModel h item = Inr m"
  shows "\<forall>(internal, external) \<in> set flag_fields.
           get m internal \<noteq> JUndefined
         \<and> (get item external = JUndefined \<longrightarrow> get m internal = JBool False)
         \<and> (\<not> truthy (get item external) \<longrightarrow> get m internal = JBool False)
         \<and> (truthy (get item external) \<longrightarrow> get m internal = get item external)
         \<and> (is_boolean (get item external) \<or> nullish (get item external)
              \<longrightarrow> is_boolean (get m internal))"
proof (clarify, intro conjI impI)
  fix internal external
  assume mem: "(internal, external) \<in> set flag_fields"
  note eq = mapDb_flag [OF assms mem]
  show "get m internal \<noteq> JUndefined"
    by (simp add: eq or_else_cases)
  show "get m internal = JBool False" if "get item external = JUndefined"
    using that by (simp add: eq or_else_def)
  show "get m internal = JBool False" if "\<not> truthy (get item external)"
    using that by (simp add: eq or_else_cases)
  show "get m internal = get item external" if "truthy (get item external)"
    using that by (simp add: eq or_else_cases)
  show "is_boolean (get m internal)"
    if "is_boolean (get item external) \<or> nullish (get item external)"
    using that by (simp add: eq or_else_cases)
qed

theorem mapped_flags_default_false_witness:
  "field (mapDbExperienceToModel sample_host (JObj [(''featured'', JBool True)])) ''featured''
     = Some (JBool True)
   \<and> get (JObj [(''featured'', JBool True)]) ''group_activity'' = JUndefined
   \<and> field (mapDbExperienceToModel sample_host (JObj [(''featured'', JBool True)])) ''group''
     = Some (JBool False)
   \<and> (''group'', ''group_activity'') \<in> set flag_fields"
  using mapped_flags_default_false [of sample_host "JObj [(''featured'', JBool True)]"
      "JObj [(''id'', JUndefined),
             (''title'', JUndefined),
             (''description'', JUndefined),
             (''imageUrl'', JUndefined),
             (''price'', JUndefined),
             (''location'', JUndefined),
             (''latitude'', JUndefined),
             (''longitude'', JUndefined),
             (''duration'', JUndefined),
             (''participants'', JUndefined),
             (''date'', JUndefined),
             (''category'', JUndefined),
             (''nicheCategory'', JUndefined),
             (''exp_type'', JArr []),
             (''trending'', JBool False),
             (''featured'', JBool True),
             (''romantic'', JBool False),
             (''adventurous'', JBool False),
             (''group'', JBool False)]"]
  by (simp add: field_def mapDbExperienceToModel_def coordinate_def or_else_def flag_fields_def)

section \<open>Facts about the world\<close>

lemma remote_requests_append:
  "remote_requests (xs @ ys) = remote_requests xs @ remote_requests ys"
  by (induction xs rule: remote_requests.induct) simp_all

lemma storage_reads_append:
  "storage_reads (xs @ ys) = storage_reads xs + storage_reads ys"
  by (induction xs rule: storage_reads.induct) simp_all

text \<open>A cached text that parses is what the fallback read returns.\<close>

lemma getSaved_cached:
  assumes "localStorage w = Some s" and "s \<noteq> []" and "JSON_parse h s = Inr v"
  shows "getSavedExperiences h w = (v, emit GetItem w)"
  using assms by (simp add: getSavedExperiences_def getItem_def)

text \<open>The value read depends on the stored item alone; the read changes only the trace.\<close>

lemma getSaved_value_cong:
  assumes "localStorage w' = localStorage w"
  shows "fst (getSavedExperiences h w') = fst (getSavedExperiences h w)"
  using assms
  by (simp add: getSavedExperiences_def getItem_def split: option.splits sum.splits)

lemma getSaved_frame:
  "experiences (snd (getSavedExperiences h w)) = experiences w"
  "isLoading (snd (getSavedExperiences h w)) = isLoading w"
  "error (snd (getSavedExperiences h w)) = error w"
  "localStorage (snd (getSavedExperiences h w)) = localStorage w"
  "remote (snd (getSavedExperiences h w)) = remote w"
  by (simp_all add: getSavedExperiences_def getItem_def emit_def
        split: option.splits sum.splits)

lemma from_experiences_frame:
  "experiences (snd (from_experiences h rq w)) = experiences w"
  "isLoading (snd (from_experiences h rq w)) = isLoading w"
  "error (snd (from_experiences h rq w)) = error w"
  "localStorage (snd (from_experiences h rq w)) = localStorage w"
  "trace (snd (from_experiences h rq w)) = trace w @ [Remote rq]"
  "fst (from_experiences h rq w) = fst (supabase h rq (remote w))"
  by (simp_all add: from_experiences_def emit_def split: prod.splits)

lemma find_id_lacks:
  "list_all (\<lambda>x. \<not> nullish x \<and> get x ''id'' \<noteq> JStr i) xs \<Longrightarrow> find_id i xs = Inr JUndefined"
  by (induction xs) simp_all

lemma array_find_id_lacks: "lacks_id i v \<Longrightarrow> array_find_id i v = Inr JUndefined"
  by (cases v) (simp_all add: find_id_lacks)

subsection \<open>C5: import of something that is not an array\<close>

text \<open>
  C5. \<^verbatim>\<open>importExperiences\<close> never raises to its caller: on every text and in every
  world it returns a result. For every text whose parsed value is not an array,
  texts that fail to parse included, the result has \<^verbatim>\<open>success = false\<close>, no request
  (so no insert) is sent to the remote store, and the store, the in-memory list and
  the fallback store are as before.
\<close>

theorem importExperiences_rejects_non_array:
  "(\<exists>r. fst (importExperiences h s w) = Inr r)
   \<and> (\<not> parses_to_array h s \<longrightarrow>
        (\<exists>r. fst (importExperiences h s w) = Inr r \<and> \<not> success r)
        \<and> remote_requests (trace (snd (importExperiences h s w))) = remote_requests (trace w)
        \<and> remote (snd (importExperiences h s w)) = remote w
        \<and> experiences (snd (importExperiences h s w)) = experiences w
        \<and> localStorage (snd (importExperiences h s w)) = localStorage w)"
proof (intro conjI impI)
  show "\<exists>r. fst (importExperiences h s w) = Inr r"
    by (cases "importExperiences_try h s w"; cases "fst (importExperiences_try h s w)")
       (auto simp: importExperiences_def)
next
  assume "\<not> parses_to_array h s"
  then have tr: "importExperiences_try h s w =
      (case JSON_parse h s of
         Inl e \<Rightarrow> (Inl e, w)
       | Inr v \<Rightarrow> (Inr \<lparr>success = False, message = ''Invalid format: expected an array''\<rparr>, w))"
    by (auto simp: importExperiences_try_def parses_to_array_def split: sum.splits)
  show "\<exists>r. fst (importExperiences h s w) = Inr r \<and> \<not> success r"
    by (simp add: importExperiences_def tr split: sum.splits)
  show "remote_requests (trace (snd (importExperiences h s w))) = remote_requests (trace w)"
    by (simp add: importExperiences_def tr emit_def remote_requests_append split: sum.splits)
  show "remote (snd (importExperiences h s w)) = remote w"
    by (simp add: importExperiences_def tr emit_def split: sum.splits)
  show "experiences (snd (importExperiences h s w)) = experiences w"
    by (simp add: importExperiences_def tr emit_def split: sum.splits)
  show "localStorage (snd (importExperiences h s w)) = localStorage w"
    by (simp add: importExperiences_def tr emit_def split: sum.splits)
qed

theorem importExperiences_rejects_non_array_witness:
  "\<not> parses_to_array sample_host ''{}''
   \<and> fst (importExperiences sample_host ''{}'' sample_world)
       = Inr \<lparr>success = False, message = ''Invalid format: expected an array''\<rparr>
   \<and> remote_requests (trace (snd (importExperiences sample_host ''{}'' sample_world))) = []
   \<and> \<not> parses_to_array sample_host ''not json''
   \<and> fst (importExperiences sample_host ''not json'' sample_world)
       = Inr \<lparr>success = False, message = ''Error importing: Unexpected token''\<rparr>
   \<and> remote_requests (trace (snd (importExperiences sample_host ''not json'' sample_world))) = []"
  using importExperiences_rejects_non_array [of sample_host "''{}''" sample_world]
        importExperiences_rejects_non_array [of sample_host "''not json''" sample_world]
  by (simp add: parses_to_array_def sample_host_def importExperiences_def
        importExperiences_try_def sample_world_def emit_def)

subsection \<open>C6: an identifier that is nowhere\<close>

text \<open>
  C6. When the remote store has no row with the identifier (the query by id answers
  without error and without data), or when the remote call fails and the list read
  from the Local Fallback Store has no record with it, \<^verbatim>\<open>getExperienceById\<close>
  returns \<^verbatim>\<open>null\<close> and does not raise.
\<close>

theorem getExperienceById_absent_returns_null:
  assumes "fst (supabase h (SelectMaybeSingle columns (Eq ''id'' (JStr i))) (remote w))
             = (data, err)"
      and "err = None \<longrightarrow> data = JNull"
      and "err \<noteq> None \<longrightarrow> lacks_id i (fst (getSavedExperiences h w))"
  shows "fst (getExperienceById h i w) = Inr JNull"
proof -
  obtain r' where sup:
    "supabase h (SelectMaybeSingle columns (Eq ''id'' (JStr i))) (remote w) = ((data, err), r')"
    using assms(1) by (metis prod.collapse)
  define w1 where
    "w1 = emit (Remote (SelectMaybeSingle columns (Eq ''id'' (JStr i)))) (w\<lparr>remote := r'\<rparr>)"
  have fe: "from_experiences h (SelectMaybeSingle columns (Eq ''id'' (JStr i))) w
              = ((data, err), w1)"
    by (simp add: from_experiences_def sup w1_def)
  show ?thesis
  proof (cases err)
    case None
    with assms(2) have "data = JNull" by simp
    with None show ?thesis by (simp add: getExperienceById_def fe)
  next
    case (Some e)
    define w2 where "w2 = emit (ConsoleError ''Error loading experience by ID:'' e) w1"
    have "localStorage w2 = localStorage w"
      by (simp add: w2_def w1_def emit_def)
    then have "fst (getSavedExperiences h w2) = fst (getSavedExperiences h w)"
      by (rule getSaved_value_cong)
    with assms(3) Some have "lacks_id i (fst (getSavedExperiences h w2))" by simp
    then have "array_find_id i (fst (getSavedExperiences h w2)) = Inr JUndefined"
      by (rule array_find_id_lacks)
    then show ?thesis
      by (cases "getSavedExperiences h w2")
         (simp add: getExperienceById_def fe Some w2_def [symmetric] or_else_def)
  qed
qed

theorem getExperienceById_absent_returns_null_witness:
  "fst (supabase sample_host (SelectMaybeSingle columns (Eq ''id'' (JStr ''e2'')))
          (remote sample_world)) = (JNull, None)
   \<and> fst (getExperienceById sample_host ''e2'' sample_world) = Inr JNull
   \<and> fst (supabase (sample_host\<lparr>supabase := offline\<rparr>)
            (SelectMaybeSingle columns (Eq ''id'' (JStr ''e2''))) (remote sample_world))
      = (JNull, Some (JsError ''Failed to fetch''))
   \<and> lacks_id ''e2'' (fst (getSavedExperiences (sample_host\<lparr>supabase := offline\<rparr>) sample_world))
   \<and> fst (getExperienceById (sample_host\<lparr>supabase := offline\<rparr>) ''e2'' sample_world)
      = Inr JNull"
  using getExperienceById_absent_returns_null [of sample_host "''e2''" sample_world JNull None]
        getExperienceById_absent_returns_null [of "sample_host\<lparr>supabase := offline\<rparr>"
          "''e2''" sample_world JNull "Some (JsError ''Failed to fetch'')"]
  by (simp add: sample_host_def sample_world_def sample_row_def offline_def
        getSavedExperiences_def getItem_def)

subsection \<open>C7: the initial fetch fails over a filled cache\<close>

text \<open>
  C7. If the remote fetch of all rows fails while the Local Fallback Store holds a
  cached list of \<open>n > 0\<close> records, the fetch of the Stateful Manager ends without
  raising, with the loading flag false, the error message set, and the in-memory
  list equal to the cached list, of length \<open>n\<close>.
\<close>

theorem fetchExperiences_falls_back_to_cache:
  assumes fails: "snd (fst (supabase h (Select columns NoFilter) (remote w))) = Some e"
      and cache: "localStorage w = Some s" "s \<noteq> []" "JSON_parse h s = Inr (JArr xs)"
      and n: "length xs = n" "0 < n"
  shows "fst (fetchExperiences h w) = Inr ()
       \<and> isLoading (snd (fetchExperiences h w)) = False
       \<and> error (snd (fetchExperiences h w)) = Some ''Failed to load experiences''
       \<and> experiences (snd (fetchExperiences h w)) = JArr xs
       \<and> length xs = n"
proof -
  let ?w0 = "w\<lparr>isLoading := True, error := None\<rparr>"
  obtain d r' where sup: "supabase h (Select columns NoFilter) (remote w) = ((d, Some e), r')"
    using fails by (metis prod.collapse)
  define w1 where "w1 = emit (Remote (Select columns NoFilter)) (?w0\<lparr>remote := r'\<rparr>)"
  have tried: "fetchExperiences_try h ?w0 = (Inl e, w1)"
    by (simp add: fetchExperiences_try_def from_experiences_def sup w1_def)
  define w2 where
    "w2 = (emit (ConsoleError ''Error fetching experiences:'' e) w1)
            \<lparr>error := Some ''Failed to load experiences''\<rparr>"
  have ls: "localStorage w2 = Some s"
    by (simp add: w2_def w1_def emit_def cache)
  have saved: "getSavedExperiences h w2 = (JArr xs, emit GetItem w2)"
    by (rule getSaved_cached [OF ls cache(2,3)])
  have xs: "xs \<noteq> []"
    using n by auto
  have caught:
    "fetchExperiences_catch h e w1 = (Inr (), (emit GetItem w2)\<lparr>experiences := JArr xs\<rparr>)"
    by (simp add: fetchExperiences_catch_def w2_def [symmetric] saved xs)
  have "fetchExperiences h w
          = (Inr (), (emit GetItem w2)\<lparr>experiences := JArr xs, isLoading := False\<rparr>)"
    by (simp add: fetchExperiences_def tried caught)
  then show ?thesis
    by (simp add: emit_def w2_def n)
qed

theorem fetchExperiences_falls_back_to_cache_witness:
  "snd (fst (supabase (sample_host\<lparr>supabase := offline\<rparr>) (Select columns NoFilter) []))
      = Some (JsError ''Failed to fetch'')
   \<and> JSON_parse (sample_host\<lparr>supabase := offline\<rparr>) ''[{},{},{}]''
      = Inr (JArr [JObj [], JObj [], JObj []])
   \<and> fst (useExperiencesManager (sample_host\<lparr>supabase := offline\<rparr>) (Some ''[{},{},{}]'') [])
      = Inr ()
   \<and> isLoading (snd (useExperiencesManager (sample_host\<lparr>supabase := offline\<rparr>)
                       (Some ''[{},{},{}]'') [])) = False
   \<and> error (snd (useExperiencesManager (sample_host\<lparr>supabase := offline\<rparr>)
                   (Some ''[{},{},{}]'') [])) = Some ''Failed to load experiences''
   \<and> experiences (snd (useExperiencesManager (sample_host\<lparr>supabase := offline\<rparr>)
                         (Some ''[{},{},{}]'') [])) = JArr [JObj [], JObj [], JObj []]"
  using fetchExperiences_falls_back_to_cache [of "sample_host\<lparr>supabase := offline\<rparr>"
      "\<lparr>experiences = JArr [], isLoading = True, error = None,
        localStorage = Some ''[{},{},{}]'', remote = [], trace = []\<rparr>"
      "JsError ''Failed to fetch''" "''[{},{},{}]''" "[JObj [], JObj [], JObj []]" 3]
  by (simp add: useExperiencesManager_def sample_host_def offline_def)

subsection \<open>C9: reset\<close>

text \<open>
  C9. In every state \<^verbatim>\<open>resetExperiences\<close> returns \<^verbatim>\<open>{success: true}\<close> with a success
  message and leaves the in-memory list, the Local Fallback Store and the remote
  store as they are: it sends no request and only shows a toast.
\<close>

theorem resetExperiences_restores_nothing:
  "fst (resetExperiences w)
     = Inr \<lparr>success = True, message = ''Experiences have been reset''\<rparr>
   \<and> experiences (snd (resetExperiences w)) = experiences w
   \<and> localStorage (snd (resetExperiences w)) = localStorage w
   \<and> remote (snd (resetExperiences w)) = remote w
   \<and> trace (snd (resetExperiences w)) = trace w @ [ToastSuccess ''Experiences have been reset'']
   \<and> remote_requests (trace (snd (resetExperiences w))) = remote_requests (trace w)"
  by (simp add: resetExperiences_def emit_def remote_requests_append)

subsection \<open>C10: an unknown category\<close>

text \<open>
  C10. For every category identifier that matches no entry of the static categories
  list, \<^verbatim>\<open>getExperiencesByCategory\<close> returns the empty list at once: the world is
  untouched, so no request went to the remote store and the Local Fallback Store was
  not read.
\<close>

theorem getExperiencesByCategory_unknown_category:
  assumes "categoryId \<notin> cat_id ` set (categories h)"
  shows "getExperiencesByCategory h categoryId w = (Inr (JArr []), w)
       \<and> remote_requests (trace (snd (getExperiencesByCategory h categoryId w)))
           = remote_requests (trace w)
       \<and> storage_reads (trace (snd (getExperiencesByCategory h categoryId w)))
           = storage_reads (trace w)"
proof -
  have "find (\<lambda>cat. cat_id cat = categoryId) (categories h) = None"
    using assms by (auto simp: find_None_iff)
  then show ?thesis
    by (simp add: getExperiencesByCategory_def getExperiencesByCategory_try_def)
qed

theorem getExperiencesByCategory_unknown_category_witness:
  "''cooking'' \<notin> cat_id ` set (categories sample_host)
   \<and> getExperiencesByCategory sample_host ''cooking'' sample_world
       = (Inr (JArr []), sample_world)"
  using getExperiencesByCategory_unknown_category [of "''cooking''" sample_host sample_world]
  by (simp add: sample_host_def)

subsection \<open>C8: who writes the Local Fallback Store\<close>

lemma from_experiences_localStorage:
  "from_experiences h rq w = (resp, w') \<Longrightarrow> localStorage w' = localStorage w"
  by (auto simp: from_experiences_def emit_def split: prod.splits)

lemma importExperiences_try_localStorage:
  "localStorage (snd (importExperiences_try h s w)) = localStorage w"
  unfolding importExperiences_try_def
  by (auto split: sum.splits prod.splits option.splits
        dest!: from_experiences_localStorage)

text \<open>
  The claim as written fails for the standalone fetch: on the sample world with an
  empty cache, \<^verbatim>\<open>getAllExperiences\<close> sends its one request, gets the list without
  an error, and the cache is still empty.
\<close>

theorem getAllExperiences_writes_nothing_counterexample:
  "trace (snd (getAllExperiences sample_host (sample_world\<lparr>localStorage := None\<rparr>)))
     = [Remote (Select columns NoFilter)]
   \<and> isArray (fst (getAllExperiences sample_host (sample_world\<lparr>localStorage := None\<rparr>)))
   \<and> localStorage (snd (getAllExperiences sample_host (sample_world\<lparr>localStorage := None\<rparr>)))
     = None"
  by (simp add: getAllExperiences_def from_experiences_def sample_host_def sample_world_def
        sample_row_def emit_def mapDbExperienceToModel_def coordinate_def or_else_def)

text \<open>
  C8, amended. After a successful fetch of the full list by the Stateful Manager's
  initial effect, the entire mapped list is written to the Local Fallback Store (the
  single \<^verbatim>\<open>localStorage\<close> key), replacing its previous contents. The standalone
  \<^verbatim>\<open>getAllExperiences\<close>, the re-fetch of the import and the fetch of the export
  never write to the Local Fallback Store: whatever their fetch returns, it is as
  before.
\<close>

theorem only_initial_fetch_writes_fallback_store:
  "(supabase h (Select columns NoFilter) (remote w) = ((data, None), r')
      \<and> array_map (mapDbExperienceToModel h) data = Inr mapped
    \<longrightarrow> fst (fetchExperiences h w) = Inr ()
      \<and> experiences (snd (fetchExperiences h w)) = JArr mapped
      \<and> localStorage (snd (fetchExperiences h w)) = Some (JSON_stringify h (JArr mapped) 0))
   \<and> localStorage (snd (getAllExperiences h w)) = localStorage w
   \<and> localStorage (snd (importExperiences h s w)) = localStorage w
   \<and> localStorage (snd (exportExperiences h w)) = localStorage w"
proof (intro conjI impI)
  assume ok: "supabase h (Select columns NoFilter) (remote w) = ((data, None), r')
      \<and> array_map (mapDbExperienceToModel h) data = Inr mapped"
  then have tried: "fetchExperiences_try h (w\<lparr>isLoading := True, error := None\<rparr>)
      = (Inr (), setItem (JSON_stringify h (JArr mapped) 0)
           ((emit (Remote (Select columns NoFilter))
              (w\<lparr>isLoading := True, error := None, remote := r'\<rparr>))
            \<lparr>experiences := JArr mapped\<rparr>))"
    by (simp add: fetchExperiences_try_def from_experiences_def)
  show "fst (fetchExperiences h w) = Inr ()"
    by (simp add: fetchExperiences_def tried)
  show "experiences (snd (fetchExperiences h w)) = JArr mapped"
    by (simp add: fetchExperiences_def tried setItem_def emit_def)
  show "localStorage (snd (fetchExperiences h w)) = Some (JSON_stringify h (JArr mapped) 0)"
    by (simp add: fetchExperiences_def tried setItem_def emit_def)
next
  show "localStorage (snd (getAllExperiences h w)) = localStorage w"
    unfolding getAllExperiences_def
    by (cases "supabase h (Select columns NoFilter) (remote w)")
       (auto simp: from_experiences_def emit_def getSaved_frame
          split: option.splits sum.splits)
next
  show "localStorage (snd (importExperiences h s w)) = localStorage w"
    using importExperiences_try_localStorage [of h s w]
    by (cases "importExperiences_try h s w"; cases "fst (importExperiences_try h s w)")
       (auto simp: importExperiences_def emit_def)
next
  show "localStorage (snd (exportExperiences h w)) = localStorage w"
    unfolding exportExperiences_def exportExperiences_try_def
    by (cases "supabase h (Select columns NoFilter) (remote w)")
       (auto simp: from_experiences_def emit_def split: option.splits sum.splits)
qed

theorem only_initial_fetch_writes_fallback_store_witness:
  "supabase sample_host (Select columns NoFilter) (remote (sample_world\<lparr>remote := []\<rparr>))
      = ((JArr [], None), [])
   \<and> array_map (mapDbExperienceToModel sample_host) (JArr []) = Inr []
   \<and> localStorage (sample_world\<lparr>remote := []\<rparr>) = Some ''[{},{},{}]''
   \<and> fst (fetchExperiences sample_host (sample_world\<lparr>remote := []\<rparr>)) = Inr ()
   \<and> experiences (snd (fetchExperiences sample_host (sample_world\<lparr>remote := []\<rparr>))) = JArr []
   \<and> localStorage (snd (fetchExperiences sample_host (sample_world\<lparr>remote := []\<rparr>)))
      = Some ''[]''"
  using only_initial_fetch_writes_fallback_store
    [of sample_host "sample_world\<lparr>remote := []\<rparr>" "JArr []" "[]" "[]"]
  by (simp add: sample_host_def sample_world_def)

subsection \<open>C2: the partial update\<close>













end
